theory Spec2Isabelle
  imports Main "HOL-Library.Multiset" "HOL-Library.Word"
begin

section \<open>Data model (app/models.py, schemas.py)\<close>

text \<open>
  The two mapped classes of \<^verbatim>\<open>app/models.py\<close> as rows of their tables. A column typed
  \<^verbatim>\<open>int\<close> is an INTEGER column of the store, a signed 32-bit value (read as a Python
  integer with \<open>sint\<close>); a column typed \<^verbatim>\<open>str\<close> is a string, held as its UTF-8 bytes.
  The field names carry a prefix because both classes have columns called \<^verbatim>\<open>id\<close>,
  \<^verbatim>\<open>name\<close>, \<^verbatim>\<open>cooking_time\<close> and \<^verbatim>\<open>description\<close>.
\<close>

record Recipe =
  r_id :: "32 word"
  r_name :: string
  r_views :: "32 word"
  r_cooking_time :: "32 word"
  r_description :: string

record Ingredient =
  i_id :: "32 word"
  i_name :: string
  i_cooking_time :: "32 word"
  i_description :: string
  i_list_of_ingredients :: string
  i_recipe_id :: "32 word"

text \<open>
  The request schemas of \<^verbatim>\<open>schemas.py\<close>: the only fields a client can send. Here
  \<^verbatim>\<open>int\<close> is the Python integer the validation accepts, of any size, and so is the
  \<^verbatim>\<open>recipe_id: int\<close> of a path.
\<close>

record RecipeCreate =
  rc_name :: string
  rc_cooking_time :: int
  rc_description :: string

record IngredientCreate =
  ic_name :: string
  ic_list_of_ingredients :: string
  ic_recipe_id :: int

section \<open>The store\<close>

text \<open>
  The relational store behind the session: the rows of \<^verbatim>\<open>recipes\<close> and \<^verbatim>\<open>ingredients\<close>
  in insertion order, and the last value handed out by the sequence behind each
  \<^verbatim>\<open>autoincrement\<close> primary key. Every handler runs in one session and commits before it
  returns, so a handler is a function from the store to a result and the store afterwards.
\<close>

record store =
  recipes_tbl :: "Recipe list"
  ingredients_tbl :: "Ingredient list"
  recipes_id_seq :: int
  ingredients_id_seq :: int

definition empty_store :: store where
  "empty_store = \<lparr>recipes_tbl = [], ingredients_tbl = [], recipes_id_seq = 0, ingredients_id_seq = 0\<rparr>"

text \<open>
  What a handler can raise: the \<^verbatim>\<open>HTTPException\<close> of main.py with its status code and
  detail, and the failures of the store layer, which no handler catches: a statement the
  store cannot take (\<^verbatim>\<open>DBAPIError\<close>), a violated primary or foreign key at commit
  (\<^verbatim>\<open>IntegrityError\<close>), a refresh of a row that is not there.
\<close>

datatype error = HTTPException nat string | DBAPIError | IntegrityError | InvalidRequestError

subsection \<open>Values sent to the store\<close>

text \<open>
  The handlers hand Python values to the store as they come from the request; nothing in
  main.py or schemas.py checks a range. A value for an INTEGER column or compared with
  one must be a signed 32-bit integer, and a value for a string column must not hold the
  NUL character: a statement with another value fails as a whole and nothing is written.
\<close>

definition int32 :: "int \<Rightarrow> bool" where
  "int32 k \<longleftrightarrow> - 2147483648 \<le> k \<and> k \<le> 2147483647"

definition text_ok :: "string \<Rightarrow> bool" where
  "text_ok s \<longleftrightarrow> CHR 0x00 \<notin> set s"

definition int4 :: "int \<Rightarrow> error + 32 word" where
  "int4 k = (if int32 k then Inr (word_of_int k) else Inl DBAPIError)"

subsection \<open>SELECT\<close>

text \<open>\<^verbatim>\<open>result.scalars().first()\<close>: the first row of a result, or \<^verbatim>\<open>None\<close>.\<close>

definition first :: "'a list \<Rightarrow> 'a option" where
  "first xs = (case xs of [] \<Rightarrow> None | x # _ \<Rightarrow> Some x)"

text \<open>\<^verbatim>\<open>db.execute(select(models.Recipe).filter_by(id=recipe_id))\<close>\<close>

definition select_recipe_by_id :: "int \<Rightarrow> store \<Rightarrow> error + Recipe list" where
  "select_recipe_by_id recipe_id db =
     (case int4 recipe_id of
        Inl e \<Rightarrow> Inl e
      | Inr k \<Rightarrow> Inr (filter (\<lambda>r. r_id r = k) (recipes_tbl db)))"

definition select_ingredient_by_id :: "int \<Rightarrow> store \<Rightarrow> error + Ingredient list" where
  "select_ingredient_by_id ingredient_id db =
     (case int4 ingredient_id of
        Inl e \<Rightarrow> Inl e
      | Inr k \<Rightarrow> Inr (filter (\<lambda>i. i_id i = k) (ingredients_tbl db)))"

subsection \<open>ORDER BY\<close>

text \<open>
  An \<^verbatim>\<open>order_by\<close> is a list of columns, each ascending or descending; rows are compared
  on the first column, and on the following ones where the earlier ones tie.
\<close>

datatype direction = Asc | Desc

type_synonym 'a order_clause = "('a \<Rightarrow> int) \<times> direction"

fun precedes :: "'a order_clause list \<Rightarrow> 'a \<Rightarrow> 'a \<Rightarrow> bool" where
  "precedes [] a b = True"
| "precedes ((k, Asc) # cs) a b = (k a < k b \<or> (k a = k b \<and> precedes cs a b))"
| "precedes ((k, Desc) # cs) a b = (k b < k a \<or> (k a = k b \<and> precedes cs a b))"

fun insert_row :: "'a order_clause list \<Rightarrow> 'a \<Rightarrow> 'a list \<Rightarrow> 'a list" where
  "insert_row cs x [] = [x]"
| "insert_row cs x (y # ys) =
     (if precedes cs x y then x # y # ys else y # insert_row cs x ys)"

definition order_by :: "'a order_clause list \<Rightarrow> 'a list \<Rightarrow> 'a list" where
  "order_by cs xs = foldr (insert_row cs) xs []"

subsection \<open>INSERT\<close>

text \<open>
  An insert first sends its values (see above); then it takes the next value of the
  table's sequence as the primary key, which fails once the sequence has handed out its
  last 32-bit value; then the store refuses a row whose primary key is taken or whose
  foreign key references no row (the sequence has advanced by then). \<^verbatim>\<open>views\<close> has
  \<^verbatim>\<open>default=0\<close>: the default is used when the object was built without a value for it.
  The result is the new primary key as the object holds it after the flush.
\<close>

definition insert_recipe ::
  "string \<Rightarrow> int option \<Rightarrow> int \<Rightarrow> string \<Rightarrow> store \<Rightarrow> (error + int) \<times> store" where
  "insert_recipe name views cooking_time description db =
     (if \<not> (text_ok name \<and> (case views of None \<Rightarrow> True | Some v \<Rightarrow> int32 v)
              \<and> int32 cooking_time \<and> text_ok description)
      then (Inl DBAPIError, db)
      else
        let new_id = recipes_id_seq db + 1 in
        if \<not> int32 new_id then (Inl DBAPIError, db)
        else
          let db1 = db\<lparr>recipes_id_seq := new_id\<rparr> in
          if word_of_int new_id \<in> set (map r_id (recipes_tbl db)) then (Inl IntegrityError, db1)
          else (Inr new_id,
                db1\<lparr>recipes_tbl := recipes_tbl db @
                  [\<lparr>r_id = word_of_int new_id, r_name = name,
                    r_views = (case views of None \<Rightarrow> 0 | Some v \<Rightarrow> word_of_int v),
                    r_cooking_time = word_of_int cooking_time,
                    r_description = description\<rparr>]\<rparr>))"

definition insert_ingredient ::
  "string \<Rightarrow> int \<Rightarrow> string \<Rightarrow> string \<Rightarrow> int \<Rightarrow> store \<Rightarrow> (error + int) \<times> store" where
  "insert_ingredient name cooking_time description list_of_ingredients recipe_id db =
     (if \<not> (text_ok name \<and> int32 cooking_time \<and> text_ok description
              \<and> text_ok list_of_ingredients \<and> int32 recipe_id)
      then (Inl DBAPIError, db)
      else
        let new_id = ingredients_id_seq db + 1 in
        if \<not> int32 new_id then (Inl DBAPIError, db)
        else
          let db1 = db\<lparr>ingredients_id_seq := new_id\<rparr> in
          if word_of_int new_id \<in> set (map i_id (ingredients_tbl db))
             \<or> word_of_int recipe_id \<notin> set (map r_id (recipes_tbl db))
          then (Inl IntegrityError, db1)
          else (Inr new_id,
                db1\<lparr>ingredients_tbl := ingredients_tbl db @
                  [\<lparr>i_id = word_of_int new_id, i_name = name,
                    i_cooking_time = word_of_int cooking_time, i_description = description,
                    i_list_of_ingredients = list_of_ingredients,
                    i_recipe_id = word_of_int recipe_id\<rparr>]\<rparr>))"

text \<open>\<^verbatim>\<open>db.refresh(obj)\<close>: the row is read back by its primary key.\<close>

definition refresh_recipe :: "int \<Rightarrow> store \<Rightarrow> error + Recipe" where
  "refresh_recipe pk db =
     (case select_recipe_by_id pk db of
        Inl e \<Rightarrow> Inl e
      | Inr rows \<Rightarrow>
          (case first rows of
             None \<Rightarrow> Inl InvalidRequestError
           | Some r \<Rightarrow> Inr r))"

definition refresh_ingredient :: "int \<Rightarrow> store \<Rightarrow> error + Ingredient" where
  "refresh_ingredient pk db =
     (case select_ingredient_by_id pk db of
        Inl e \<Rightarrow> Inl e
      | Inr rows \<Rightarrow>
          (case first rows of
             None \<Rightarrow> Inl InvalidRequestError
           | Some i \<Rightarrow> Inr i))"

subsection \<open>DELETE\<close>

text \<open>
  \<^verbatim>\<open>delete(models.Recipe).where(...)\<close> is a statement on the table: it removes the rows
  that match, and the foreign key of \<^verbatim>\<open>ingredients.recipe_id\<close>, declared
  \<^verbatim>\<open>ondelete='CASCADE'\<close>, removes with them the ingredient rows that reference a removed
  row. The \<^verbatim>\<open>cascade\<close> of the relationship plays no part in a statement of this kind.
\<close>

definition delete_recipes_where :: "(Recipe \<Rightarrow> bool) \<Rightarrow> store \<Rightarrow> store" where
  "delete_recipes_where p db =
     (let deleted = map r_id (filter p (recipes_tbl db))
      in db\<lparr>recipes_tbl := filter (\<lambda>r. \<not> p r) (recipes_tbl db),
            ingredients_tbl := filter (\<lambda>i. i_recipe_id i \<notin> set deleted) (ingredients_tbl db)\<rparr>)"

section \<open>The handlers (main.py)\<close>

text \<open>\<^verbatim>\<open>str(n)\<close> of a Python integer, for the f-string of \<^verbatim>\<open>delete_recipe\<close>.\<close>

fun str_nat :: "nat \<Rightarrow> string" where
  "str_nat n =
     (if n < 10 then [''0123456789'' ! n]
      else str_nat (n div 10) @ [''0123456789'' ! (n mod 10)])"

definition str_int :: "int \<Rightarrow> string" where
  "str_int n = (if n < 0 then CHR ''-'' # str_nat (nat (- n)) else str_nat (nat n))"

text \<open>\<^verbatim>\<open>GET /recipes\<close>, the spec's list_recipes.\<close>

definition recipes :: "store \<Rightarrow> (error + Recipe list) \<times> store" where
  "recipes db =
     (Inr (order_by [(\<lambda>r. sint (r_views r), Desc), (\<lambda>r. sint (r_cooking_time r), Asc)]
             (recipes_tbl db)), db)"

text \<open>\<^verbatim>\<open>GET /recipes/{recipe_id}\<close>, the spec's get_recipe.\<close>

definition recipe :: "int \<Rightarrow> store \<Rightarrow> (error + Recipe) \<times> store" where
  "recipe recipe_id db =
     (case select_recipe_by_id recipe_id db of
        Inl e \<Rightarrow> (Inl e, db)
      | Inr rows \<Rightarrow>
          (case first rows of
             None \<Rightarrow> (Inl (HTTPException 404 ''Recipe not found''), db)
           | Some r \<Rightarrow> (Inr r, db)))"

text \<open>\<^verbatim>\<open>POST /recipes\<close>: the object is built from the three request fields only.\<close>

definition create_recipe :: "RecipeCreate \<Rightarrow> store \<Rightarrow> (error + Recipe) \<times> store" where
  "create_recipe rc db =
     (case insert_recipe (rc_name rc) None (rc_cooking_time rc) (rc_description rc) db of
        (Inl e, db') \<Rightarrow> (Inl e, db')
      | (Inr pk, db') \<Rightarrow> (refresh_recipe pk db', db'))"

text \<open>
  \<^verbatim>\<open>POST /ingredients\<close>: \<^verbatim>\<open>recipe.cooking_time\<close> and \<^verbatim>\<open>recipe.description\<close> are read
  from the row that was found.
\<close>

definition create_ingredient :: "IngredientCreate \<Rightarrow> store \<Rightarrow> (error + Ingredient) \<times> store" where
  "create_ingredient ingredient db =
     (case select_recipe_by_id (ic_recipe_id ingredient) db of
        Inl e \<Rightarrow> (Inl e, db)
      | Inr rows \<Rightarrow>
          (case first rows of
             None \<Rightarrow> (Inl (HTTPException 404 ''Recipe not found''), db)
           | Some r \<Rightarrow>
               (case insert_ingredient (ic_name ingredient) (sint (r_cooking_time r))
                       (r_description r) (ic_list_of_ingredients ingredient)
                       (ic_recipe_id ingredient) db of
                  (Inl e, db') \<Rightarrow> (Inl e, db')
                | (Inr pk, db') \<Rightarrow> (refresh_ingredient pk db', db'))))"

text \<open>\<^verbatim>\<open>DELETE /delete_recipe{recipe_id}\<close>\<close>

definition delete_recipe :: "int \<Rightarrow> store \<Rightarrow> (error + string) \<times> store" where
  "delete_recipe recipe_id db =
     (case select_recipe_by_id recipe_id db of
        Inl e \<Rightarrow> (Inl e, db)
      | Inr rows \<Rightarrow>
          (case first rows of
             None \<Rightarrow> (Inl (HTTPException 404 ''Recipe not found''), db)
           | Some r \<Rightarrow>
               (case int4 recipe_id of
                  Inl e \<Rightarrow> (Inl e, db)
                | Inr k \<Rightarrow>
                    (Inr (''Recipe with id '' @ str_int recipe_id @
                          '' was successfully deleted.''),
                     delete_recipes_where (\<lambda>r. r_id r = k) db))))"

section \<open>The relationship \<^verbatim>\<open>Recipe.ingredients\<close> (app/models.py)\<close>

text \<open>
  A \<^verbatim>\<open>relationship()\<close> declared without \<^verbatim>\<open>uselist\<close> takes it from the annotation of
  the attribute: \<^verbatim>\<open>Mapped[List['Ingredient']]\<close> names a collection and the attribute holds
  every related row; \<^verbatim>\<open>Mapped['Ingredient']\<close> names the class itself and the attribute
  holds one related row or \<^verbatim>\<open>None\<close> (of several related rows the first is kept).
  \<^verbatim>\<open>Recipe.ingredients\<close> is annotated \<^verbatim>\<open>Mapped['Ingredient']\<close>.
\<close>

datatype mapped_annotation = Mapped_class | Mapped_list

definition uselist :: "mapped_annotation \<Rightarrow> bool" where
  "uselist a = (case a of Mapped_list \<Rightarrow> True | Mapped_class \<Rightarrow> False)"

datatype 'a attribute = Scalar "'a option" | Collection "'a list"

definition load_relationship :: "mapped_annotation \<Rightarrow> 'a list \<Rightarrow> 'a attribute" where
  "load_relationship a related = (if uselist a then Collection related else Scalar (first related))"

definition Recipe_ingredients :: "store \<Rightarrow> Recipe \<Rightarrow> Ingredient attribute" where
  "Recipe_ingredients db r =
     load_relationship Mapped_class (filter (\<lambda>i. i_recipe_id i = r_id r) (ingredients_tbl db))"

text \<open>The rows an attribute value gives access to.\<close>

fun reachable :: "'a attribute \<Rightarrow> 'a list" where
  "reachable (Scalar None) = []"
| "reachable (Scalar (Some x)) = [x]"
| "reachable (Collection xs) = xs"

section \<open>The application\<close>

text \<open>
  The five routes of \<^verbatim>\<open>app\<close>. A route declared with a \<^verbatim>\<open>response_model\<close> sends the
  fields of that schema only: \<^verbatim>\<open>POST /recipes\<close> answers with a \<^verbatim>\<open>RecipeCreate\<close>,
  \<^verbatim>\<open>POST /ingredients\<close> with an \<^verbatim>\<open>IngredientCreate\<close>, the delete route with a
  \<^verbatim>\<open>RecipeDelete\<close> (a message). The two read routes send the rows as they are.
\<close>

datatype request =
    GET_recipes
  | GET_recipe int
  | POST_recipes RecipeCreate
  | POST_ingredients IngredientCreate
  | DELETE_recipe int

datatype response =
    Recipe_rows "Recipe list"
  | Recipe_row Recipe
  | RecipeCreate_body RecipeCreate
  | IngredientCreate_body IngredientCreate
  | RecipeDelete_body string

definition RecipeCreate_of :: "Recipe \<Rightarrow> RecipeCreate" where
  "RecipeCreate_of r =
     \<lparr>rc_name = r_name r, rc_cooking_time = sint (r_cooking_time r),
      rc_description = r_description r\<rparr>"

definition IngredientCreate_of :: "Ingredient \<Rightarrow> IngredientCreate" where
  "IngredientCreate_of i =
     \<lparr>ic_name = i_name i, ic_list_of_ingredients = i_list_of_ingredients i,
      ic_recipe_id = sint (i_recipe_id i)\<rparr>"

definition respond :: "('a \<Rightarrow> response) \<Rightarrow> (error + 'a) \<times> store \<Rightarrow> (error + response) \<times> store" where
  "respond f res = (case res of (Inl e, db) \<Rightarrow> (Inl e, db) | (Inr x, db) \<Rightarrow> (Inr (f x), db))"

fun app :: "request \<Rightarrow> store \<Rightarrow> (error + response) \<times> store" where
  "app GET_recipes db = respond Recipe_rows (recipes db)"
| "app (GET_recipe recipe_id) db = respond Recipe_row (recipe recipe_id db)"
| "app (POST_recipes rc) db = respond (\<lambda>r. RecipeCreate_body (RecipeCreate_of r)) (create_recipe rc db)"
| "app (POST_ingredients ic) db =
     respond (\<lambda>i. IngredientCreate_body (IngredientCreate_of i)) (create_ingredient ic db)"
| "app (DELETE_recipe recipe_id) db = respond RecipeDelete_body (delete_recipe recipe_id db)"

text \<open>The store after a sequence of requests, served one after the other.\<close>

fun run :: "request list \<Rightarrow> store \<Rightarrow> store" where
  "run [] db = db"
| "run (q # qs) db = run qs (snd (app q db))"

section \<open>Invariants of the store\<close>

text \<open>
  Primary keys: the ids of a table are distinct and were handed out by its sequence.
  Foreign key: every ingredient references a recipe of the store. Strings: no stored
  string holds a NUL. The empty store has all three, and every handler keeps them
  (proved below), so they hold in every store the application reaches.
\<close>

definition pk_ok :: "store \<Rightarrow> bool" where
  "pk_ok db =
     (distinct (map r_id (recipes_tbl db))
      \<and> list_all (\<lambda>r. sint (r_id r) \<le> recipes_id_seq db) (recipes_tbl db)
      \<and> distinct (map i_id (ingredients_tbl db))
      \<and> list_all (\<lambda>i. sint (i_id i) \<le> ingredients_id_seq db) (ingredients_tbl db))"

definition fk_ok :: "store \<Rightarrow> bool" where
  "fk_ok db = list_all (\<lambda>i. i_recipe_id i \<in> set (map r_id (recipes_tbl db))) (ingredients_tbl db)"

definition text_cols_ok :: "store \<Rightarrow> bool" where
  "text_cols_ok db =
     (list_all (\<lambda>r. text_ok (r_name r) \<and> text_ok (r_description r)) (recipes_tbl db)
      \<and> list_all (\<lambda>i. text_ok (i_name i) \<and> text_ok (i_description i)
                      \<and> text_ok (i_list_of_ingredients i)) (ingredients_tbl db))"

text \<open>The ids of the stored recipes, as the Python integers a request is compared with.\<close>

definition recipe_ids :: "store \<Rightarrow> int list" where
  "recipe_ids db = map (\<lambda>r. sint (r_id r)) (recipes_tbl db)"

section \<open>Example data\<close>

definition soup :: Recipe where
  "soup = \<lparr>r_id = 1, r_name = ''Soup'', r_views = 0, r_cooking_time = 20,
           r_description = ''Hot soup''\<rparr>"

definition stew :: Recipe where
  "stew = \<lparr>r_id = 2, r_name = ''Stew'', r_views = 7, r_cooking_time = 90,
           r_description = ''Slow stew''\<rparr>"

definition salad :: Recipe where
  "salad = \<lparr>r_id = 3, r_name = ''Salad'', r_views = 7, r_cooking_time = 10,
            r_description = ''Green salad''\<rparr>"

definition soup_base :: Ingredient where
  "soup_base = \<lparr>i_id = 1, i_name = ''Base'', i_cooking_time = 20, i_description = ''Hot soup'',
                i_list_of_ingredients = ''water, salt'', i_recipe_id = 1\<rparr>"

definition soup_veg :: Ingredient where
  "soup_veg = \<lparr>i_id = 2, i_name = ''Vegetables'', i_cooking_time = 20,
               i_description = ''Hot soup'', i_list_of_ingredients = ''carrot, onion'',
               i_recipe_id = 1\<rparr>"

definition stew_meat :: Ingredient where
  "stew_meat = \<lparr>i_id = 3, i_name = ''Meat'', i_cooking_time = 90,
                i_description = ''Slow stew'', i_list_of_ingredients = ''beef'',
                i_recipe_id = 2\<rparr>"

definition kitchen :: store where
  "kitchen = \<lparr>recipes_tbl = [soup, stew, salad],
              ingredients_tbl = [soup_base, soup_veg, stew_meat],
              recipes_id_seq = 3, ingredients_id_seq = 3\<rparr>"

definition soup_request :: RecipeCreate where
  "soup_request = \<lparr>rc_name = ''Soup'', rc_cooking_time = 20, rc_description = ''Hot soup''\<rparr>"

definition base_request :: IngredientCreate where
  "base_request = \<lparr>ic_name = ''Base'', ic_list_of_ingredients = ''water, salt'', ic_recipe_id = 1\<rparr>"

definition orphan_request :: IngredientCreate where
  "orphan_request = \<lparr>ic_name = ''Base'', ic_list_of_ingredients = ''water, salt'', ic_recipe_id = 9\<rparr>"

definition veg_request :: IngredientCreate where
  "veg_request = \<lparr>ic_name = ''Vegetables'', ic_list_of_ingredients = ''carrot, onion'',
                  ic_recipe_id = 1\<rparr>"

text \<open>Requests the validation accepts and the store does not.\<close>

definition slow_request :: RecipeCreate where
  "slow_request = \<lparr>rc_name = ''Soup'', rc_cooking_time = 2147483648,
                   rc_description = ''Hot soup''\<rparr>"

definition far_request :: IngredientCreate where
  "far_request = \<lparr>ic_name = ''Base'', ic_list_of_ingredients = ''water, salt'',
                  ic_recipe_id = 2147483648\<rparr>"

definition nul_request :: IngredientCreate where
  "nul_request = \<lparr>ic_name = [CHR ''a'', CHR 0x00, CHR ''b''],
                  ic_list_of_ingredients = ''water, salt'', ic_recipe_id = 1\<rparr>"

definition session :: "request list" where
  "session = [POST_recipes soup_request, POST_ingredients base_request, GET_recipes,
              POST_ingredients veg_request, DELETE_recipe 2, GET_recipe 1, DELETE_recipe 1,
              POST_ingredients base_request]"

definition two_ingredients :: "request list" where
  "two_ingredients = [POST_recipes soup_request, POST_ingredients base_request,
                      POST_ingredients veg_request]"

section \<open>Signed 32-bit values\<close>

lemma sint_int32: "int32 (sint (w :: 32 word))"
  using sint_ge [of w] sint_lt [of w] by (simp add: int32_def)

lemma sint_word_of_int: "int32 k \<Longrightarrow> sint (word_of_int k :: 32 word) = k"
  by (simp add: int32_def sint_sbintrunc' signed_take_bit_int_eq_self)

lemma int4_sint: "int4 (sint w) = Inr w"
  by (simp add: int4_def sint_int32)

lemma int4_inside: "int32 k \<Longrightarrow> int4 k = Inr (word_of_int k)"
  by (simp add: int4_def)

lemma int4_outside: "\<not> int32 k \<Longrightarrow> int4 k = Inl DBAPIError"
  by (simp add: int4_def)

lemma word_of_int_eq_iff: "int32 k \<Longrightarrow> word_of_int k = (w :: 32 word) \<longleftrightarrow> k = sint w"
  using sint_word_of_int [of k] by auto

section \<open>Lookups by primary key\<close>

lemma first_filter_None: "first (filter P xs) = None \<longleftrightarrow> (\<forall>x\<in>set xs. \<not> P x)"
  by (induction xs) (auto simp: first_def)

lemma first_filter_SomeD: "first (filter P xs) = Some x \<Longrightarrow> x \<in> set xs \<and> P x"
  by (induction xs) (auto simp: first_def split: if_splits)

lemma first_filter_distinct:
  "distinct (map f xs) \<Longrightarrow> x \<in> set xs \<Longrightarrow> first (filter (\<lambda>y. f y = f x) xs) = Some x"
  by (induction xs) (auto simp: first_def)

lemma select_recipe_outside: "\<not> int32 k \<Longrightarrow> select_recipe_by_id k db = Inl DBAPIError"
  by (simp add: select_recipe_by_id_def int4_outside)

lemma select_recipe_inside:
  "int32 k \<Longrightarrow>
     select_recipe_by_id k db = Inr (filter (\<lambda>r. r_id r = word_of_int k) (recipes_tbl db))"
  by (simp add: select_recipe_by_id_def int4_inside)

lemma select_recipe_sint:
  "select_recipe_by_id (sint w) db = Inr (filter (\<lambda>r. r_id r = w) (recipes_tbl db))"
  by (simp add: select_recipe_by_id_def int4_sint)

lemma select_ingredient_inside:
  "int32 k \<Longrightarrow>
     select_ingredient_by_id k db = Inr (filter (\<lambda>i. i_id i = word_of_int k) (ingredients_tbl db))"
  by (simp add: select_ingredient_by_id_def int4_inside)

lemma recipe_ids_outside: "\<not> int32 k \<Longrightarrow> k \<notin> set (recipe_ids db)"
  by (auto simp: recipe_ids_def sint_int32)

lemma recipe_ids_inside:
  "int32 k \<Longrightarrow> k \<in> set (recipe_ids db) \<longleftrightarrow> word_of_int k \<in> r_id ` set (recipes_tbl db)"
  by (auto simp: recipe_ids_def word_of_int_eq_iff image_iff)

lemma recipe_ids_sint: "sint w \<in> set (recipe_ids db) \<longleftrightarrow> w \<in> r_id ` set (recipes_tbl db)"
  using recipe_ids_inside [OF sint_int32, of w db] by simp

lemma first_rows_None:
  "first (filter (\<lambda>r. r_id r = w) (recipes_tbl db)) = None \<longleftrightarrow> w \<notin> r_id ` set (recipes_tbl db)"
  by (auto simp: first_filter_None)

lemma first_rows_pk:
  "distinct (map r_id (recipes_tbl db)) \<Longrightarrow> r \<in> set (recipes_tbl db) \<Longrightarrow>
     first (filter (\<lambda>x. r_id x = r_id r) (recipes_tbl db)) = Some r"
  by (rule first_filter_distinct)

lemma first_rows_Some_ex:
  "w \<in> r_id ` set (recipes_tbl db) \<Longrightarrow>
     \<exists>r'. first (filter (\<lambda>r. r_id r = w) (recipes_tbl db)) = Some r'"
  using first_rows_None [of w db]
  by (cases "first (filter (\<lambda>r. r_id r = w) (recipes_tbl db))") auto

lemmas example_defs = kitchen_def soup_def stew_def salad_def soup_base_def soup_veg_def
  stew_meat_def

lemmas request_defs = soup_request_def base_request_def veg_request_def orphan_request_def
  slow_request_def far_request_def nul_request_def

lemma pk_ok_kitchen: "pk_ok kitchen"
  by (simp add: pk_ok_def example_defs)

lemma pk_ok_empty_store: "pk_ok empty_store"
  by (simp add: pk_ok_def empty_store_def)

lemma recipe_ids_kitchen: "recipe_ids kitchen = [1, 2, 3]"
  by (simp add: recipe_ids_def example_defs)

section \<open>Deleting a recipe\<close>

lemma delete_recipes_where_id:
  "delete_recipes_where (\<lambda>x. r_id x = k) db =
     db\<lparr>recipes_tbl := filter (\<lambda>x. r_id x \<noteq> k) (recipes_tbl db),
        ingredients_tbl := filter (\<lambda>i. i_recipe_id i \<noteq> k) (ingredients_tbl db)\<rparr>"
  if "k \<in> r_id ` set (recipes_tbl db)"
proof -
  have "set (map r_id (filter (\<lambda>x. r_id x = k) (recipes_tbl db))) = {k}"
    using that by auto
  then show ?thesis
    by (simp add: delete_recipes_where_def Let_def)
qed

lemma delete_recipe_found:
  assumes "w \<in> r_id ` set (recipes_tbl db)"
  shows "delete_recipe (sint w) db =
     (Inr (''Recipe with id '' @ str_int (sint w) @ '' was successfully deleted.''),
      db\<lparr>recipes_tbl := filter (\<lambda>x. r_id x \<noteq> w) (recipes_tbl db),
         ingredients_tbl := filter (\<lambda>i. i_recipe_id i \<noteq> w) (ingredients_tbl db)\<rparr>)"
proof -
  obtain r' where "first (filter (\<lambda>r. r_id r = w) (recipes_tbl db)) = Some r'"
    using first_rows_Some_ex [OF assms] by blast
  then show ?thesis
    by (simp add: delete_recipe_def select_recipe_sint int4_sint delete_recipes_where_id [OF assms])
qed

lemma recipe_missing:
  "w \<notin> r_id ` set (recipes_tbl db) \<Longrightarrow>
     recipe (sint w) db = (Inl (HTTPException 404 ''Recipe not found''), db)"
  by (simp add: recipe_def select_recipe_sint first_rows_None [THEN iffD2])

text \<open>
  C1. For a recipe \<open>r\<close> of the store, \<open>delete_recipe\<close> on its id succeeds; the store
  afterwards holds the recipes and the ingredients of before without those carrying or
  referencing \<open>r_id r\<close> (the statement deletes on the table, the foreign key removes the
  dependents), so \<open>r\<close> is gone, no ingredient references its id, and fetching the id
  answers 404.
\<close>

theorem delete_recipe_cascades:
  assumes "r \<in> set (recipes_tbl db)"
  shows "\<exists>db'. delete_recipe (sint (r_id r)) db =
            (Inr (''Recipe with id '' @ str_int (sint (r_id r)) @ '' was successfully deleted.''),
             db')
       \<and> recipes_tbl db' = filter (\<lambda>x. r_id x \<noteq> r_id r) (recipes_tbl db)
       \<and> ingredients_tbl db' = filter (\<lambda>i. i_recipe_id i \<noteq> r_id r) (ingredients_tbl db)
       \<and> r \<notin> set (recipes_tbl db')
       \<and> r_id r \<notin> i_recipe_id ` set (ingredients_tbl db')
       \<and> recipe (sint (r_id r)) db' = (Inl (HTTPException 404 ''Recipe not found''), db')"
proof -
  define db' where "db' = db\<lparr>recipes_tbl := filter (\<lambda>x. r_id x \<noteq> r_id r) (recipes_tbl db),
        ingredients_tbl := filter (\<lambda>i. i_recipe_id i \<noteq> r_id r) (ingredients_tbl db)\<rparr>"
  from assms have mem: "r_id r \<in> r_id ` set (recipes_tbl db)" by simp
  have run: "delete_recipe (sint (r_id r)) db =
      (Inr (''Recipe with id '' @ str_int (sint (r_id r)) @ '' was successfully deleted.''), db')"
    unfolding db'_def by (rule delete_recipe_found [OF mem])
  have rs: "recipes_tbl db' = filter (\<lambda>x. r_id x \<noteq> r_id r) (recipes_tbl db)"
    and ings: "ingredients_tbl db' = filter (\<lambda>i. i_recipe_id i \<noteq> r_id r) (ingredients_tbl db)"
    by (simp_all add: db'_def)
  have gone: "r \<notin> set (recipes_tbl db')" by (simp add: rs)
  have none: "r_id r \<notin> i_recipe_id ` set (ingredients_tbl db')" by (auto simp: ings)
  have "r_id r \<notin> r_id ` set (recipes_tbl db')" by (auto simp: rs)
  then have nf: "recipe (sint (r_id r)) db' = (Inl (HTTPException 404 ''Recipe not found''), db')"
    by (rule recipe_missing)
  from run rs ings gone none nf show ?thesis by blast
qed

theorem delete_recipe_cascades_witness:
  "soup \<in> set (recipes_tbl kitchen)
   \<and> recipes_tbl (snd (delete_recipe (sint (r_id soup)) kitchen)) = [stew, salad]
   \<and> ingredients_tbl (snd (delete_recipe (sint (r_id soup)) kitchen)) = [stew_meat]"
proof -
  have h: "soup \<in> set (recipes_tbl kitchen)"
    by (simp add: example_defs)
  from delete_recipe_cascades [OF h] obtain db' where
    run: "snd (delete_recipe (sint (r_id soup)) kitchen) = db'"
    and rs: "recipes_tbl db' = filter (\<lambda>x. r_id x \<noteq> r_id soup) (recipes_tbl kitchen)"
    and ings: "ingredients_tbl db' = filter (\<lambda>i. i_recipe_id i \<noteq> r_id soup) (ingredients_tbl kitchen)"
    by auto
  have "recipes_tbl db' = [stew, salad]"
    unfolding rs by (simp add: example_defs)
  moreover have "ingredients_tbl db' = [stew_meat]"
    unfolding ings by (simp add: example_defs)
  ultimately show ?thesis using h run by simp
qed

lemma delete_recipe_absent:
  assumes "recipe_id \<notin> set (recipe_ids db)"
  shows "delete_recipe recipe_id db =
           (Inl (if int32 recipe_id then HTTPException 404 ''Recipe not found'' else DBAPIError), db)"
proof (cases "int32 recipe_id")
  case True
  with assms have "word_of_int recipe_id \<notin> r_id ` set (recipes_tbl db)"
    by (simp add: recipe_ids_inside)
  then have "first (filter (\<lambda>r. r_id r = word_of_int recipe_id) (recipes_tbl db)) = None"
    by (simp add: first_rows_None)
  with True show ?thesis
    by (simp add: delete_recipe_def select_recipe_inside)
next
  case False
  then show ?thesis
    by (simp add: delete_recipe_def select_recipe_outside)
qed

text \<open>
  C6. When no recipe of the store has the requested id, \<open>delete_recipe\<close> leaves the
  store as it was, both tables and both sequences. It raises the 404 when the id is a
  signed 32-bit integer; for any other id the lookup fails in the store and the error
  raised is \<open>DBAPIError\<close>. At the id 2147483648 the store holds no such recipe and the
  answer is not the 404.
\<close>

theorem delete_recipe_unknown:
  assumes "recipe_id \<notin> set (recipe_ids db)"
  shows "delete_recipe recipe_id db =
           (Inl (if int32 recipe_id then HTTPException 404 ''Recipe not found'' else DBAPIError), db)"
  using assms by (rule delete_recipe_absent)

theorem delete_recipe_unknown_witness:
  "9 \<notin> set (recipe_ids kitchen)
   \<and> delete_recipe 9 kitchen = (Inl (HTTPException 404 ''Recipe not found''), kitchen)"
proof -
  have h: "9 \<notin> set (recipe_ids kitchen)"
    by (simp add: recipe_ids_kitchen)
  from h delete_recipe_unknown [OF h] show ?thesis by (simp add: int32_def)
qed

theorem delete_recipe_unknown_counterexample:
  "2147483648 \<notin> set (recipe_ids kitchen)
   \<and> delete_recipe 2147483648 kitchen = (Inl DBAPIError, kitchen)
   \<and> fst (delete_recipe 2147483648 kitchen) \<noteq> Inl (HTTPException 404 ''Recipe not found'')"
  by (simp add: recipe_ids_kitchen delete_recipe_def select_recipe_by_id_def int4_def int32_def)

section \<open>Fetching a recipe\<close>

lemma recipe_found:
  "distinct (map r_id (recipes_tbl db)) \<Longrightarrow> r \<in> set (recipes_tbl db) \<Longrightarrow>
     recipe (sint (r_id r)) db = (Inr r, db)"
  by (simp add: recipe_def select_recipe_sint first_rows_pk)

lemma recipe_outside: "\<not> int32 k \<Longrightarrow> recipe k db = (Inl DBAPIError, db)"
  by (simp add: recipe_def select_recipe_outside)

lemma recipe_inside_cases:
  assumes "int32 k"
  shows "(k \<notin> set (recipe_ids db) \<and> recipe k db = (Inl (HTTPException 404 ''Recipe not found''), db))
       \<or> (k \<in> set (recipe_ids db) \<and> (\<exists>r. recipe k db = (Inr r, db)))"
proof (cases "k \<in> set (recipe_ids db)")
  case True
  with assms have "word_of_int k \<in> r_id ` set (recipes_tbl db)"
    by (simp add: recipe_ids_inside)
  then obtain r where "first (filter (\<lambda>r. r_id r = word_of_int k) (recipes_tbl db)) = Some r"
    using first_rows_Some_ex by blast
  with assms True show ?thesis
    by (simp add: recipe_def select_recipe_inside)
next
  case False
  with assms have "word_of_int k \<notin> r_id ` set (recipes_tbl db)"
    by (simp add: recipe_ids_inside)
  then have "first (filter (\<lambda>r. r_id r = word_of_int k) (recipes_tbl db)) = None"
    by (simp add: first_rows_None)
  with assms False show ?thesis
    by (simp add: recipe_def select_recipe_inside)
qed

lemma snd_recipe: "snd (recipe k db) = db"
  by (simp add: recipe_def split: sum.splits option.splits)

text \<open>
  C7. In a store whose primary keys are in order, \<open>recipe k\<close> returns the recipe with id
  \<open>k\<close> when the store has one; it raises the 404 exactly when \<open>k\<close> is a signed 32-bit
  integer and the store has no recipe with that id, and \<open>DBAPIError\<close> exactly when
  \<open>k\<close> is no signed 32-bit integer; the store is left as it was in every case. At the
  id 2147483648 no recipe has the id and the answer is not the 404.
\<close>

theorem recipe_by_id:
  assumes "pk_ok db"
  shows "(\<forall>r\<in>set (recipes_tbl db). sint (r_id r) = recipe_id \<longrightarrow> recipe recipe_id db = (Inr r, db))
       \<and> (fst (recipe recipe_id db) = Inl (HTTPException 404 ''Recipe not found'')
            \<longleftrightarrow> int32 recipe_id \<and> recipe_id \<notin> set (recipe_ids db))
       \<and> (fst (recipe recipe_id db) = Inl DBAPIError \<longleftrightarrow> \<not> int32 recipe_id)
       \<and> snd (recipe recipe_id db) = db"
proof -
  from assms have d: "distinct (map r_id (recipes_tbl db))"
    by (simp add: pk_ok_def)
  have found: "recipe recipe_id db = (Inr r, db)"
    if "r \<in> set (recipes_tbl db)" "sint (r_id r) = recipe_id" for r
    using recipe_found [OF d that(1)] that(2) by simp
  have missing: "fst (recipe recipe_id db) = Inl (HTTPException 404 ''Recipe not found'')
            \<longleftrightarrow> int32 recipe_id \<and> recipe_id \<notin> set (recipe_ids db)"
  proof (cases "int32 recipe_id")
    case True
    from recipe_inside_cases [OF True, of db] True show ?thesis by auto
  next
    case False
    then show ?thesis by (simp add: recipe_outside)
  qed
  have refused: "fst (recipe recipe_id db) = Inl DBAPIError \<longleftrightarrow> \<not> int32 recipe_id"
  proof (cases "int32 recipe_id")
    case True
    from recipe_inside_cases [OF True, of db] True show ?thesis by auto
  next
    case False
    then show ?thesis by (simp add: recipe_outside)
  qed
  from found missing refused snd_recipe [of recipe_id db] show ?thesis by blast
qed

theorem recipe_by_id_witness:
  "pk_ok kitchen \<and> recipe 2 kitchen = (Inr stew, kitchen)
   \<and> fst (recipe 9 kitchen) = Inl (HTTPException 404 ''Recipe not found'')
   \<and> snd (recipe 9 kitchen) = kitchen"
proof -
  have stew: "stew \<in> set (recipes_tbl kitchen)" and id: "sint (r_id stew) = 2"
    by (simp_all add: example_defs)
  have none: "int32 9 \<and> 9 \<notin> set (recipe_ids kitchen)"
    by (simp add: recipe_ids_kitchen int32_def)
  from recipe_by_id [OF pk_ok_kitchen, of 2] stew id
  have "recipe 2 kitchen = (Inr stew, kitchen)" by blast
  moreover from recipe_by_id [OF pk_ok_kitchen, of 9] none
  have "fst (recipe 9 kitchen) = Inl (HTTPException 404 ''Recipe not found'')"
    and "snd (recipe 9 kitchen) = kitchen" by blast+
  ultimately show ?thesis using pk_ok_kitchen by blast
qed

theorem recipe_by_id_counterexample:
  "2147483648 \<notin> set (recipe_ids kitchen)
   \<and> recipe 2147483648 kitchen = (Inl DBAPIError, kitchen)
   \<and> fst (recipe 2147483648 kitchen) \<noteq> Inl (HTTPException 404 ''Recipe not found'')"
  by (simp add: recipe_ids_kitchen recipe_def select_recipe_by_id_def int4_def int32_def)

section \<open>Creating an ingredient\<close>

lemma create_ingredient_absent:
  assumes "ic_recipe_id ingredient \<notin> set (recipe_ids db)"
  shows "create_ingredient ingredient db =
           (Inl (if int32 (ic_recipe_id ingredient) then HTTPException 404 ''Recipe not found''
                 else DBAPIError), db)"
proof (cases "int32 (ic_recipe_id ingredient)")
  case True
  with assms have "word_of_int (ic_recipe_id ingredient) \<notin> r_id ` set (recipes_tbl db)"
    by (simp add: recipe_ids_inside)
  then have "first (filter (\<lambda>r. r_id r = word_of_int (ic_recipe_id ingredient)) (recipes_tbl db))
      = None"
    by (simp add: first_rows_None)
  with True show ?thesis
    by (simp add: create_ingredient_def select_recipe_inside)
next
  case False
  then show ?thesis
    by (simp add: create_ingredient_def select_recipe_outside)
qed

text \<open>
  C5. When no recipe of the store has the id the request names, \<open>create_ingredient\<close>
  leaves the store as it was: no ingredient is written. It raises the 404 when the id is
  a signed 32-bit integer; for any other id the lookup fails in the store and the error
  raised is \<open>DBAPIError\<close>. At the recipe id 2147483648 the answer is not the 404.
\<close>

theorem create_ingredient_unknown_recipe:
  assumes "ic_recipe_id ingredient \<notin> set (recipe_ids db)"
  shows "create_ingredient ingredient db =
           (Inl (if int32 (ic_recipe_id ingredient) then HTTPException 404 ''Recipe not found''
                 else DBAPIError), db)"
  using assms by (rule create_ingredient_absent)

theorem create_ingredient_unknown_recipe_witness:
  "ic_recipe_id orphan_request \<notin> set (recipe_ids kitchen)
   \<and> create_ingredient orphan_request kitchen = (Inl (HTTPException 404 ''Recipe not found''), kitchen)"
proof -
  have h: "ic_recipe_id orphan_request \<notin> set (recipe_ids kitchen)"
    by (simp add: orphan_request_def recipe_ids_kitchen)
  from h create_ingredient_unknown_recipe [OF h] show ?thesis
    by (simp add: orphan_request_def int32_def)
qed

theorem create_ingredient_unknown_recipe_counterexample:
  "ic_recipe_id far_request \<notin> set (recipe_ids kitchen)
   \<and> create_ingredient far_request kitchen = (Inl DBAPIError, kitchen)
   \<and> fst (create_ingredient far_request kitchen) \<noteq> Inl (HTTPException 404 ''Recipe not found'')"
  by (simp add: recipe_ids_kitchen far_request_def create_ingredient_def select_recipe_by_id_def
      int4_def int32_def)

section \<open>Creating rows\<close>

lemma filter_key_empty: "w \<notin> f ` set xs \<Longrightarrow> filter (\<lambda>x. f x = w) xs = []"
  by (induction xs) auto

lemma fresh_recipe_id:
  assumes "pk_ok db" and "int32 (recipes_id_seq db + 1)"
  shows "word_of_int (recipes_id_seq db + 1) \<notin> r_id ` set (recipes_tbl db)"
proof
  assume "word_of_int (recipes_id_seq db + 1) \<in> r_id ` set (recipes_tbl db)"
  then obtain r where r: "r \<in> set (recipes_tbl db)"
    and "r_id r = word_of_int (recipes_id_seq db + 1)" by auto
  then have "sint (r_id r) = recipes_id_seq db + 1"
    using sint_word_of_int [OF assms(2)] by simp
  moreover from assms(1) r have "sint (r_id r) \<le> recipes_id_seq db"
    by (simp add: pk_ok_def list_all_iff)
  ultimately show False by simp
qed


lemma create_recipe_refused:
  assumes "\<not> (text_ok (rc_name rc) \<and> int32 (rc_cooking_time rc) \<and> text_ok (rc_description rc)
              \<and> int32 (recipes_id_seq db + 1))"
  shows "create_recipe rc db = (Inl DBAPIError, db)"
  using assms by (auto simp: create_recipe_def insert_recipe_def Let_def)

lemma create_recipe_taken:
  assumes "text_ok (rc_name rc)" "int32 (rc_cooking_time rc)" "text_ok (rc_description rc)"
    and "int32 (recipes_id_seq db + 1)"
    and "word_of_int (recipes_id_seq db + 1) \<in> r_id ` set (recipes_tbl db)"
  shows "create_recipe rc db = (Inl IntegrityError, db\<lparr>recipes_id_seq := recipes_id_seq db + 1\<rparr>)"
  using assms by (simp add: create_recipe_def insert_recipe_def Let_def)

lemma create_recipe_fresh:
  assumes "text_ok (rc_name rc)" "int32 (rc_cooking_time rc)" "text_ok (rc_description rc)"
    and "int32 (recipes_id_seq db + 1)"
    and "word_of_int (recipes_id_seq db + 1) \<notin> r_id ` set (recipes_tbl db)"
  shows "create_recipe rc db =
     (Inr \<lparr>r_id = word_of_int (recipes_id_seq db + 1), r_name = rc_name rc, r_views = 0,
           r_cooking_time = word_of_int (rc_cooking_time rc),
           r_description = rc_description rc\<rparr>,
      db\<lparr>recipes_id_seq := recipes_id_seq db + 1,
         recipes_tbl := recipes_tbl db @
           [\<lparr>r_id = word_of_int (recipes_id_seq db + 1), r_name = rc_name rc, r_views = 0,
             r_cooking_time = word_of_int (rc_cooking_time rc),
             r_description = rc_description rc\<rparr>]\<rparr>)"
proof -
  from assms(5)
  have "filter (\<lambda>r. r_id r = word_of_int (recipes_id_seq db + 1)) (recipes_tbl db) = []"
    by (rule filter_key_empty)
  then show ?thesis using assms
    by (simp add: create_recipe_def insert_recipe_def Let_def refresh_recipe_def
        select_recipe_inside first_def)
qed

lemma create_ingredient_refused:
  assumes "int32 (ic_recipe_id ic)"
    and "first (filter (\<lambda>r. r_id r = word_of_int (ic_recipe_id ic)) (recipes_tbl db)) = Some r"
    and "\<not> (text_ok (ic_name ic) \<and> text_ok (r_description r)
              \<and> text_ok (ic_list_of_ingredients ic) \<and> int32 (ingredients_id_seq db + 1))"
  shows "create_ingredient ic db = (Inl DBAPIError, db)"
  using assms
  by (auto simp: create_ingredient_def select_recipe_inside insert_ingredient_def Let_def)

lemma create_ingredient_taken:
  assumes "int32 (ic_recipe_id ic)"
    and "first (filter (\<lambda>r. r_id r = word_of_int (ic_recipe_id ic)) (recipes_tbl db)) = Some r"
    and "text_ok (ic_name ic)" "text_ok (r_description r)" "text_ok (ic_list_of_ingredients ic)"
    and "int32 (ingredients_id_seq db + 1)"
    and "word_of_int (ingredients_id_seq db + 1) \<in> i_id ` set (ingredients_tbl db)"
  shows "create_ingredient ic db =
     (Inl IntegrityError, db\<lparr>ingredients_id_seq := ingredients_id_seq db + 1\<rparr>)"
  using assms
  by (simp add: create_ingredient_def select_recipe_inside insert_ingredient_def Let_def
      sint_int32)

lemma create_ingredient_fresh:
  assumes "int32 (ic_recipe_id ic)"
    and "first (filter (\<lambda>r. r_id r = word_of_int (ic_recipe_id ic)) (recipes_tbl db)) = Some r"
    and "text_ok (ic_name ic)" "text_ok (r_description r)" "text_ok (ic_list_of_ingredients ic)"
    and "int32 (ingredients_id_seq db + 1)"
    and "word_of_int (ingredients_id_seq db + 1) \<notin> i_id ` set (ingredients_tbl db)"
  shows "create_ingredient ic db =
     (Inr \<lparr>i_id = word_of_int (ingredients_id_seq db + 1), i_name = ic_name ic,
           i_cooking_time = r_cooking_time r, i_description = r_description r,
           i_list_of_ingredients = ic_list_of_ingredients ic,
           i_recipe_id = word_of_int (ic_recipe_id ic)\<rparr>,
      db\<lparr>ingredients_id_seq := ingredients_id_seq db + 1,
         ingredients_tbl := ingredients_tbl db @
           [\<lparr>i_id = word_of_int (ingredients_id_seq db + 1), i_name = ic_name ic,
             i_cooking_time = r_cooking_time r, i_description = r_description r,
             i_list_of_ingredients = ic_list_of_ingredients ic,
             i_recipe_id = word_of_int (ic_recipe_id ic)\<rparr>]\<rparr>)"
proof -
  from assms(2) have "r \<in> set (recipes_tbl db) \<and> r_id r = word_of_int (ic_recipe_id ic)"
    by (rule first_filter_SomeD)
  then have parent: "word_of_int (ic_recipe_id ic) \<in> r_id ` set (recipes_tbl db)"
    by (metis image_eqI)
  from assms(7)
  have "filter (\<lambda>i. i_id i = word_of_int (ingredients_id_seq db + 1)) (ingredients_tbl db) = []"
    by (rule filter_key_empty)
  then show ?thesis using assms parent
    by (simp add: create_ingredient_def select_recipe_inside insert_ingredient_def Let_def
        sint_int32 refresh_ingredient_def select_ingredient_inside first_def)
qed






lemma text_cols_ok_empty_store: "text_cols_ok empty_store"
  by (simp add: text_cols_ok_def empty_store_def)




section \<open>Listing the recipes\<close>

lemma precedes_total: "precedes cs a b \<or> precedes cs b a"
  by (induction cs a b rule: precedes.induct) auto

lemma precedes_trans: "precedes cs a b \<Longrightarrow> precedes cs b c \<Longrightarrow> precedes cs a c"
proof (induction cs)
  case Nil
  show ?case by simp
next
  case (Cons clause cs)
  obtain k d where clause: "clause = (k, d)" by (cases clause)
  show ?case
  proof (cases d)
    case Asc
    with Cons clause show ?thesis by auto
  next
    case Desc
    with Cons clause show ?thesis by auto
  qed
qed

lemma mset_insert_row: "mset (insert_row cs x ys) = add_mset x (mset ys)"
  by (induction ys) auto

lemma set_insert_row: "set (insert_row cs x ys) = insert x (set ys)"
  by (induction ys) auto

lemma sorted_insert_row:
  "sorted_wrt (precedes cs) ys \<Longrightarrow> sorted_wrt (precedes cs) (insert_row cs x ys)"
proof (induction ys)
  case Nil
  show ?case by simp
next
  case (Cons y ys)
  show ?case
  proof (cases "precedes cs x y")
    case True
    then have "\<forall>z\<in>set ys. precedes cs x z"
      using Cons.prems by (auto intro: precedes_trans)
    with True Cons.prems show ?thesis by simp
  next
    case False
    then have "precedes cs y x"
      using precedes_total [of cs x y] by simp
    with False Cons show ?thesis by (auto simp: set_insert_row)
  qed
qed

lemma mset_order_by: "mset (order_by cs xs) = mset xs"
  by (induction xs) (simp_all add: order_by_def mset_insert_row)

lemma sorted_order_by: "sorted_wrt (precedes cs) (order_by cs xs)"
  by (induction xs) (simp_all add: order_by_def sorted_insert_row)

lemma precedes_views_cooking_time:
  "precedes [(\<lambda>r. sint (r_views r), Desc), (\<lambda>r. sint (r_cooking_time r), Asc)] a b \<longleftrightarrow>
     sint (r_views b) < sint (r_views a)
     \<or> (sint (r_views a) = sint (r_views b) \<and> sint (r_cooking_time a) \<le> sint (r_cooking_time b))"
  by auto

text \<open>
  C3. In every store \<open>recipes\<close> succeeds and leaves the store as it was; the rows it
  returns are the rows of the table, each as often as the table has it; and of two rows
  of the answer the earlier has at least the views of the later and, when the views are
  equal, at most its cooking time.
\<close>

theorem recipes_all_ordered:
  "\<exists>rs. recipes db = (Inr rs, db)
     \<and> mset rs = mset (recipes_tbl db)
     \<and> (\<forall>i j. i < j \<and> j < length rs \<longrightarrow>
          sint (r_views (rs ! j)) \<le> sint (r_views (rs ! i))
          \<and> (r_views (rs ! i) = r_views (rs ! j) \<longrightarrow>
               sint (r_cooking_time (rs ! i)) \<le> sint (r_cooking_time (rs ! j))))"
proof -
  define rs where "rs = order_by [(\<lambda>r. sint (r_views r), Desc),
      (\<lambda>r. sint (r_cooking_time r), Asc)] (recipes_tbl db)"
  have run: "recipes db = (Inr rs, db)"
    by (simp add: recipes_def rs_def)
  have all: "mset rs = mset (recipes_tbl db)"
    unfolding rs_def by (rule mset_order_by)
  have "sorted_wrt (precedes [(\<lambda>r. sint (r_views r), Desc),
      (\<lambda>r. sint (r_cooking_time r), Asc)]) rs"
    unfolding rs_def by (rule sorted_order_by)
  then have "precedes [(\<lambda>r. sint (r_views r), Desc), (\<lambda>r. sint (r_cooking_time r), Asc)]
      (rs ! i) (rs ! j)"
    if "i < j" "j < length rs" for i j
    using that by (simp add: sorted_wrt_iff_nth_less)
  then have ordered: "sint (r_views (rs ! j)) \<le> sint (r_views (rs ! i))
      \<and> (r_views (rs ! i) = r_views (rs ! j) \<longrightarrow>
           sint (r_cooking_time (rs ! i)) \<le> sint (r_cooking_time (rs ! j)))"
    if "i < j" "j < length rs" for i j
    using that unfolding precedes_views_cooking_time by fastforce
  from run all ordered show ?thesis by blast
qed

lemma recipes_kitchen: "recipes kitchen = (Inr [salad, stew, soup], kitchen)"
  by (simp add: recipes_def order_by_def example_defs)

theorem recipes_all_ordered_witness:
  "recipes kitchen = (Inr [salad, stew, soup], kitchen)
   \<and> sint (r_views soup) \<le> sint (r_views stew)
   \<and> r_views stew = r_views salad
   \<and> sint (r_cooking_time salad) \<le> sint (r_cooking_time stew)"
proof -
  from recipes_all_ordered [of kitchen] obtain rs where
    run: "recipes kitchen = (Inr rs, kitchen)"
    and ordered: "\<And>i j. i < j \<and> j < length rs \<Longrightarrow>
          sint (r_views (rs ! j)) \<le> sint (r_views (rs ! i))
          \<and> (r_views (rs ! i) = r_views (rs ! j) \<longrightarrow>
               sint (r_cooking_time (rs ! i)) \<le> sint (r_cooking_time (rs ! j)))"
    by blast
  from run have rs: "rs = [salad, stew, soup]"
    by (simp add: recipes_kitchen)
  have tie: "r_views stew = r_views salad"
    by (simp add: example_defs)
  from ordered [of 1 2] have "sint (r_views soup) \<le> sint (r_views stew)"
    by (simp add: rs)
  moreover from ordered [of 0 1] tie
  have "sint (r_cooking_time salad) \<le> sint (r_cooking_time stew)"
    by (simp add: rs)
  ultimately show ?thesis using tie recipes_kitchen by simp
qed

section \<open>The store after a request\<close>

lemma snd_respond: "snd (respond f res) = snd res"
  by (simp add: respond_def split: prod.splits sum.splits)

lemma snd_recipes: "snd (recipes db) = db"
  by (simp add: recipes_def)

lemma snd_create_recipe:
  "snd (create_recipe rc db) =
     (if text_ok (rc_name rc) \<and> int32 (rc_cooking_time rc) \<and> text_ok (rc_description rc)
         \<and> int32 (recipes_id_seq db + 1)
      then if word_of_int (recipes_id_seq db + 1) \<in> r_id ` set (recipes_tbl db)
           then db\<lparr>recipes_id_seq := recipes_id_seq db + 1\<rparr>
           else db\<lparr>recipes_id_seq := recipes_id_seq db + 1,
                   recipes_tbl := recipes_tbl db @
                     [\<lparr>r_id = word_of_int (recipes_id_seq db + 1), r_name = rc_name rc,
                       r_views = 0, r_cooking_time = word_of_int (rc_cooking_time rc),
                       r_description = rc_description rc\<rparr>]\<rparr>
      else db)"
proof (cases "text_ok (rc_name rc) \<and> int32 (rc_cooking_time rc) \<and> text_ok (rc_description rc)
         \<and> int32 (recipes_id_seq db + 1)")
  case True
  then show ?thesis
    by (cases "word_of_int (recipes_id_seq db + 1) \<in> r_id ` set (recipes_tbl db)")
      (simp_all add: create_recipe_taken create_recipe_fresh del: of_int_add)
next
  case False
  from create_recipe_refused [OF False] False show ?thesis
    by (simp del: of_int_add)
qed

lemma snd_create_ingredient:
  "snd (create_ingredient ic db) =
     (if int32 (ic_recipe_id ic)
      then case first (filter (\<lambda>r. r_id r = word_of_int (ic_recipe_id ic)) (recipes_tbl db)) of
             None \<Rightarrow> db
           | Some r \<Rightarrow>
               if text_ok (ic_name ic) \<and> text_ok (r_description r)
                  \<and> text_ok (ic_list_of_ingredients ic) \<and> int32 (ingredients_id_seq db + 1)
               then if word_of_int (ingredients_id_seq db + 1) \<in> i_id ` set (ingredients_tbl db)
                    then db\<lparr>ingredients_id_seq := ingredients_id_seq db + 1\<rparr>
                    else db\<lparr>ingredients_id_seq := ingredients_id_seq db + 1,
                            ingredients_tbl := ingredients_tbl db @
                              [\<lparr>i_id = word_of_int (ingredients_id_seq db + 1),
                                i_name = ic_name ic, i_cooking_time = r_cooking_time r,
                                i_description = r_description r,
                                i_list_of_ingredients = ic_list_of_ingredients ic,
                                i_recipe_id = word_of_int (ic_recipe_id ic)\<rparr>]\<rparr>
               else db
      else db)"
proof (cases "int32 (ic_recipe_id ic)")
  case False
  then show ?thesis
    by (simp add: create_ingredient_def select_recipe_outside)
next
  case inside: True
  show ?thesis
  proof (cases "first (filter (\<lambda>r. r_id r = word_of_int (ic_recipe_id ic)) (recipes_tbl db))")
    case None
    with inside show ?thesis
      by (simp add: create_ingredient_def select_recipe_inside)
  next
    case (Some r)
    show ?thesis
    proof (cases "text_ok (ic_name ic) \<and> text_ok (r_description r)
                  \<and> text_ok (ic_list_of_ingredients ic) \<and> int32 (ingredients_id_seq db + 1)")
      case False
      from create_ingredient_refused [OF inside Some False] inside Some False
      show ?thesis by (simp del: of_int_add)
    next
      case ok: True
      show ?thesis
      proof (cases "word_of_int (ingredients_id_seq db + 1) \<in> i_id ` set (ingredients_tbl db)")
        case True
        from ok have "create_ingredient ic db =
            (Inl IntegrityError, db\<lparr>ingredients_id_seq := ingredients_id_seq db + 1\<rparr>)"
          by (intro create_ingredient_taken [OF inside Some] True) simp_all
        with inside Some ok True show ?thesis
          by (simp del: of_int_add)
      next
        case False
        from ok have "create_ingredient ic db =
     (Inr \<lparr>i_id = word_of_int (ingredients_id_seq db + 1), i_name = ic_name ic,
           i_cooking_time = r_cooking_time r, i_description = r_description r,
           i_list_of_ingredients = ic_list_of_ingredients ic,
           i_recipe_id = word_of_int (ic_recipe_id ic)\<rparr>,
      db\<lparr>ingredients_id_seq := ingredients_id_seq db + 1,
         ingredients_tbl := ingredients_tbl db @
           [\<lparr>i_id = word_of_int (ingredients_id_seq db + 1), i_name = ic_name ic,
             i_cooking_time = r_cooking_time r, i_description = r_description r,
             i_list_of_ingredients = ic_list_of_ingredients ic,
             i_recipe_id = word_of_int (ic_recipe_id ic)\<rparr>]\<rparr>)"
          by (intro create_ingredient_fresh [OF inside Some] False) simp_all
        with inside Some ok False show ?thesis
          by (simp del: of_int_add)
      qed
    qed
  qed
qed

lemma snd_delete_recipe:
  "snd (delete_recipe k db) =
     (if int32 k \<and> word_of_int k \<in> r_id ` set (recipes_tbl db)
      then db\<lparr>recipes_tbl := filter (\<lambda>x. r_id x \<noteq> word_of_int k) (recipes_tbl db),
              ingredients_tbl :=
                filter (\<lambda>i. i_recipe_id i \<noteq> word_of_int k) (ingredients_tbl db)\<rparr>
      else db)"
proof (cases "int32 k \<and> word_of_int k \<in> r_id ` set (recipes_tbl db)")
  case True
  then have k: "sint (word_of_int k :: 32 word) = k"
    by (simp add: sint_word_of_int)
  from True have "word_of_int k \<in> r_id ` set (recipes_tbl db)" by simp
  from delete_recipe_found [OF this] True show ?thesis
    by (simp add: k)
next
  case False
  then have "k \<notin> set (recipe_ids db)"
    using recipe_ids_inside [of k db] recipe_ids_outside [of k db] by blast
  from delete_recipe_absent [OF this] False show ?thesis
    by auto
qed

lemmas snd_app = snd_respond snd_recipes snd_recipe

lemma first_rows_parent:
  "first (filter (\<lambda>r. r_id r = w) (recipes_tbl db)) = Some r \<Longrightarrow>
     w \<in> r_id ` set (recipes_tbl db)"
  using first_rows_None [of w db] by auto

section \<open>Referential integrity\<close>

lemma fk_ok_iff:
  "fk_ok db \<longleftrightarrow> (\<forall>i\<in>set (ingredients_tbl db). i_recipe_id i \<in> r_id ` set (recipes_tbl db))"
  by (simp add: fk_ok_def list_all_iff)

lemma fk_ok_create_recipe: "fk_ok db \<Longrightarrow> fk_ok (snd (create_recipe rc db))"
  by (auto simp: snd_create_recipe fk_ok_iff simp del: of_int_add)

lemma fk_ok_create_ingredient: "fk_ok db \<Longrightarrow> fk_ok (snd (create_ingredient ic db))"
  by (auto simp: snd_create_ingredient fk_ok_iff simp del: of_int_add
      split: option.splits dest: first_rows_parent)

lemma fk_ok_delete_recipe: "fk_ok db \<Longrightarrow> fk_ok (snd (delete_recipe k db))"
  by (auto simp: snd_delete_recipe fk_ok_iff)

lemma fk_ok_app: "fk_ok db \<Longrightarrow> fk_ok (snd (app q db))"
  by (cases q)
    (simp_all add: snd_app fk_ok_create_recipe fk_ok_create_ingredient fk_ok_delete_recipe)

lemma fk_ok_run: "fk_ok db \<Longrightarrow> fk_ok (run qs db)"
  by (induction qs arbitrary: db) (simp_all add: fk_ok_app)

text \<open>
  C10. If every ingredient of the store references a recipe of the store, the same holds
  after any sequence of requests to the five routes: \<open>create_ingredient\<close> inserts only
  after it has found the parent, and \<open>delete_recipe\<close> removes the dependents with the
  parent.
\<close>

theorem referential_integrity_preserved:
  assumes "\<forall>i\<in>set (ingredients_tbl db). i_recipe_id i \<in> r_id ` set (recipes_tbl db)"
  shows "\<forall>i\<in>set (ingredients_tbl (run qs db)).
           i_recipe_id i \<in> r_id ` set (recipes_tbl (run qs db))"
proof -
  from assms have "fk_ok db" by (simp add: fk_ok_iff)
  then have "fk_ok (run qs db)" by (rule fk_ok_run)
  then show ?thesis by (simp add: fk_ok_iff)
qed

lemma run_session_kitchen:
  "run session kitchen =
     \<lparr>recipes_tbl = [salad,
        \<lparr>r_id = 4, r_name = ''Soup'', r_views = 0, r_cooking_time = 20,
         r_description = ''Hot soup''\<rparr>],
      ingredients_tbl = [], recipes_id_seq = 4, ingredients_id_seq = 5\<rparr>"
  by (simp add: session_def snd_app snd_create_recipe snd_create_ingredient snd_delete_recipe
      first_def text_ok_def int32_def example_defs request_defs)

theorem referential_integrity_preserved_witness:
  "list_all (\<lambda>i. i_recipe_id i \<in> r_id ` set (recipes_tbl kitchen)) (ingredients_tbl kitchen)
   \<and> list_all (\<lambda>i. i_recipe_id i \<in> r_id ` set (recipes_tbl (run session kitchen)))
        (ingredients_tbl (run session kitchen))"
proof -
  have h: "\<forall>i\<in>set (ingredients_tbl kitchen). i_recipe_id i \<in> r_id ` set (recipes_tbl kitchen)"
    by (simp add: example_defs)
  from h referential_integrity_preserved [OF h, of session]
  show ?thesis by (simp add: list_all_iff)
qed

section \<open>The primary keys stay in order, the strings stay clean\<close>

lemma pk_ok_iff:
  "pk_ok db \<longleftrightarrow>
     distinct (map r_id (recipes_tbl db))
     \<and> (\<forall>r\<in>set (recipes_tbl db). sint (r_id r) \<le> recipes_id_seq db)
     \<and> distinct (map i_id (ingredients_tbl db))
     \<and> (\<forall>i\<in>set (ingredients_tbl db). sint (i_id i) \<le> ingredients_id_seq db)"
  by (simp add: pk_ok_def list_all_iff)

lemma pk_ok_create_recipe: "pk_ok db \<Longrightarrow> pk_ok (snd (create_recipe rc db))"
  by (fastforce simp: snd_create_recipe pk_ok_iff sint_word_of_int simp del: of_int_add)

lemma pk_ok_create_ingredient: "pk_ok db \<Longrightarrow> pk_ok (snd (create_ingredient ic db))"
  by (fastforce simp: snd_create_ingredient pk_ok_iff sint_word_of_int simp del: of_int_add
      split: option.splits)

lemma pk_ok_delete_recipe: "pk_ok db \<Longrightarrow> pk_ok (snd (delete_recipe k db))"
  by (auto simp: snd_delete_recipe pk_ok_iff distinct_map_filter)

lemma pk_ok_app: "pk_ok db \<Longrightarrow> pk_ok (snd (app q db))"
  by (cases q)
    (simp_all add: snd_app pk_ok_create_recipe pk_ok_create_ingredient pk_ok_delete_recipe)

lemma pk_ok_run: "pk_ok db \<Longrightarrow> pk_ok (run qs db)"
  by (induction qs arbitrary: db) (simp_all add: pk_ok_app)

lemma text_cols_ok_iff:
  "text_cols_ok db \<longleftrightarrow>
     (\<forall>r\<in>set (recipes_tbl db). text_ok (r_name r) \<and> text_ok (r_description r))
     \<and> (\<forall>i\<in>set (ingredients_tbl db). text_ok (i_name i) \<and> text_ok (i_description i)
            \<and> text_ok (i_list_of_ingredients i))"
  by (simp add: text_cols_ok_def list_all_iff)

lemma text_cols_ok_create_recipe: "text_cols_ok db \<Longrightarrow> text_cols_ok (snd (create_recipe rc db))"
  by (auto simp: snd_create_recipe text_cols_ok_iff simp del: of_int_add)

lemma text_cols_ok_create_ingredient:
  "text_cols_ok db \<Longrightarrow> text_cols_ok (snd (create_ingredient ic db))"
  by (auto simp: snd_create_ingredient text_cols_ok_iff simp del: of_int_add
      split: option.splits)

lemma text_cols_ok_delete_recipe: "text_cols_ok db \<Longrightarrow> text_cols_ok (snd (delete_recipe k db))"
  by (auto simp: snd_delete_recipe text_cols_ok_iff)

lemma text_cols_ok_app: "text_cols_ok db \<Longrightarrow> text_cols_ok (snd (app q db))"
  by (cases q)
    (simp_all add: snd_app text_cols_ok_create_recipe text_cols_ok_create_ingredient
      text_cols_ok_delete_recipe)

lemma text_cols_ok_run: "text_cols_ok db \<Longrightarrow> text_cols_ok (run qs db)"
  by (induction qs arbitrary: db) (simp_all add: text_cols_ok_app)

lemma fk_ok_empty_store: "fk_ok empty_store"
  by (simp add: fk_ok_def empty_store_def)

lemma reachable_store_ok:
  "pk_ok (run qs empty_store) \<and> fk_ok (run qs empty_store) \<and> text_cols_ok (run qs empty_store)"
  by (simp add: pk_ok_run pk_ok_empty_store fk_ok_empty_store fk_ok_run
      text_cols_ok_run text_cols_ok_empty_store)

section \<open>Views\<close>

lemma recipes_after_app:
  assumes "x \<in> set (recipes_tbl (snd (app q db)))"
  shows "x \<in> set (recipes_tbl db) \<or> (r_views x = 0 \<and> r_id x \<notin> r_id ` set (recipes_tbl db))"
proof (cases q)
  case GET_recipes
  with assms show ?thesis by (simp add: snd_app)
next
  case (GET_recipe k)
  with assms show ?thesis by (simp add: snd_app)
next
  case (POST_recipes rc)
  with assms show ?thesis
    by (auto simp: snd_app snd_create_recipe simp del: of_int_add split: if_splits)
next
  case (POST_ingredients ic)
  with assms show ?thesis
    by (auto simp: snd_app snd_create_ingredient simp del: of_int_add
        split: option.splits if_splits)
next
  case (DELETE_recipe k)
  with assms show ?thesis
    by (auto simp: snd_app snd_delete_recipe split: if_splits)
qed

lemma distinct_map_eq:
  "distinct (map f xs) \<Longrightarrow> x \<in> set xs \<Longrightarrow> y \<in> set xs \<Longrightarrow> f x = f y \<Longrightarrow> x = y"
  by (auto simp: distinct_map dest: inj_onD)

text \<open>
  C9. For every request to one of the five routes, in a store whose primary keys are in
  order: a recipe of the store afterwards that has the id of a recipe of the store before
  has that recipe's views, and a recipe of the store afterwards whose id is new has
  views 0, whatever the request holds (a \<open>RecipeCreate\<close> has no views field).
\<close>

theorem views_not_set_by_client:
  assumes "pk_ok db"
  shows "(\<forall>r\<in>set (recipes_tbl db). \<forall>r'\<in>set (recipes_tbl (snd (app q db))).
            r_id r' = r_id r \<longrightarrow> r_views r' = r_views r)
       \<and> (\<forall>r'\<in>set (recipes_tbl (snd (app q db))).
            r_id r' \<notin> r_id ` set (recipes_tbl db) \<longrightarrow> r_views r' = 0)"
proof -
  from assms have d: "distinct (map r_id (recipes_tbl db))"
    by (simp add: pk_ok_iff)
  have kept: "r_views r' = r_views r"
    if "r \<in> set (recipes_tbl db)" "r' \<in> set (recipes_tbl (snd (app q db)))" "r_id r' = r_id r"
    for r r'
  proof -
    from that(1,3) have "r_id r' \<in> r_id ` set (recipes_tbl db)" by simp
    with recipes_after_app [OF that(2)] have "r' \<in> set (recipes_tbl db)" by blast
    with d that have "r' = r" by (auto dest: distinct_map_eq)
    then show ?thesis by simp
  qed
  have created: "r_views r' = 0"
    if "r' \<in> set (recipes_tbl (snd (app q db)))" "r_id r' \<notin> r_id ` set (recipes_tbl db)"
    for r'
    using recipes_after_app [OF that(1)] that(2) by auto
  from kept created show ?thesis by blast
qed

theorem views_not_set_by_client_witness:
  "pk_ok kitchen
   \<and> recipes_tbl (snd (app (POST_recipes soup_request) kitchen)) =
       [soup, stew, salad, soup\<lparr>r_id := 4\<rparr>]
   \<and> r_views (recipes_tbl (snd (app (POST_recipes soup_request) kitchen)) ! 3) = 0
   \<and> r_views (recipes_tbl (snd (app (POST_recipes soup_request) kitchen)) ! 1) = r_views stew"
proof -
  define after where "after = recipes_tbl (snd (app (POST_recipes soup_request) kitchen))"
  have after: "after = [soup, stew, salad, soup\<lparr>r_id := 4\<rparr>]"
    by (simp add: after_def snd_app snd_create_recipe text_ok_def int32_def example_defs
        request_defs)
  have new: "after ! 3 \<in> set after" and old: "after ! 1 \<in> set after"
    by (simp_all add: after)
  have fresh: "r_id (after ! 3) \<notin> r_id ` set (recipes_tbl kitchen)"
    by (simp add: after example_defs)
  have stew: "stew \<in> set (recipes_tbl kitchen)" and same: "r_id (after ! 1) = r_id stew"
    by (simp_all add: after example_defs)
  from views_not_set_by_client [OF pk_ok_kitchen, of "POST_recipes soup_request"]
    new old fresh stew same
  have "r_views (after ! 3) = 0" and "r_views (after ! 1) = r_views stew"
    unfolding after_def by blast+
  with after pk_ok_kitchen show ?thesis
    unfolding after_def by simp
qed

section \<open>Reading the relationship\<close>

lemma run_two_ingredients:
  "run two_ingredients empty_store =
     \<lparr>recipes_tbl = [soup], ingredients_tbl = [soup_base, soup_veg],
      recipes_id_seq = 1, ingredients_id_seq = 2\<rparr>"
  by (simp add: two_ingredients_def snd_app snd_create_recipe snd_create_ingredient
      first_def text_ok_def int32_def empty_store_def example_defs request_defs)

text \<open>
  C8. After one recipe and two ingredients for it have been created through the routes,
  two rows of \<^verbatim>\<open>ingredients\<close> reference the recipe, and \<open>Recipe_ingredients\<close> holds the
  first of them alone: the attribute, annotated \<^verbatim>\<open>Mapped['Ingredient']\<close>, is a scalar and
  the second ingredient is not reachable through it.
\<close>

theorem Recipe_ingredients_holds_one_row:
  "filter (\<lambda>i. i_recipe_id i = r_id soup) (ingredients_tbl (run two_ingredients empty_store)) =
     [soup_base, soup_veg]
   \<and> Recipe_ingredients (run two_ingredients empty_store) soup = Scalar (Some soup_base)
   \<and> soup_veg \<notin> set (reachable (Recipe_ingredients (run two_ingredients empty_store) soup))"
  by (simp add: run_two_ingredients Recipe_ingredients_def load_relationship_def uselist_def
      first_def example_defs)

lemma Recipe_ingredients_at_most_one: "length (reachable (Recipe_ingredients db r)) \<le> 1"
  by (simp add: Recipe_ingredients_def load_relationship_def uselist_def first_def
      split: list.splits)

section \<open>What the routes send\<close>

text \<open>
  \<^verbatim>\<open>POST /recipes\<close> answers with the fields of its \<^verbatim>\<open>response_model\<close>, which is
  the request schema: a successful create sends the request back, and neither the new
  id nor the views are part of the body.
\<close>

lemma POST_recipes_body:
  assumes "pk_ok db"
    and "text_ok (rc_name rc)" "int32 (rc_cooking_time rc)" "text_ok (rc_description rc)"
    and "int32 (recipes_id_seq db + 1)"
  shows "fst (app (POST_recipes rc) db) = Inr (RecipeCreate_body rc)"
  using assms
  by (simp add: create_recipe_fresh [OF assms(2-5) fresh_recipe_id [OF assms(1,5)]]
      respond_def RecipeCreate_of_def sint_word_of_int del: of_int_add)

lemma delete_message:
  "fst (delete_recipe 1 kitchen) = Inr ''Recipe with id 1 was successfully deleted.''"
  by (simp add: delete_recipe_def select_recipe_by_id_def int4_def int32_def first_def
      str_int_def example_defs)

end
